theory Spec2Isabelle
  imports Main
begin

section \<open>Values of the JavaScript runtime used by the handlers\<close>

text \<open>
  The handlers of \<^verbatim>\<open>src/routes/event.routes.js\<close> (the logging version, the one that
  requires \<^verbatim>\<open>../config/logger\<close>) and of \<^verbatim>\<open>src/routes/auth.routes.js\<close> work on the
  three collections of \<^verbatim>\<open>src/db/inMemoryDb.js\<close>. A JavaScript \<^verbatim>\<open>Set\<close> keeps its
  members in insertion order without duplicates: it is a list here, \<^verbatim>\<open>add\<close> appends a
  member that is not there yet, \<^verbatim>\<open>size\<close> is the length, \<^verbatim>\<open>Array.from\<close> is the list.
\<close>

definition set_has :: "'a list \<Rightarrow> 'a \<Rightarrow> bool" where
  "set_has xs x = (x \<in> set xs)"

definition set_add :: "'a list \<Rightarrow> 'a \<Rightarrow> 'a list" where
  "set_add xs x = (if x \<in> set xs then xs else xs @ [x])"

definition set_delete :: "'a list \<Rightarrow> 'a \<Rightarrow> 'a list" where
  "set_delete xs x = removeAll x xs"

definition set_size :: "'a list \<Rightarrow> int" where
  "set_size xs = int (length xs)"

text \<open>
  \<^verbatim>\<open>Date.now().toString()\<close>: the decimal digits of the millisecond clock reading.
\<close>

definition digit_char :: "nat \<Rightarrow> char" where
  "digit_char d = char_of (48 + d)"

fun toString :: "nat \<Rightarrow> string" where
  "toString n =
     (if n < 10 then [digit_char n] else toString (n div 10) @ [digit_char (n mod 10)])"

declare toString.simps [simp del]



text \<open>
  A field of a JSON request body is absent (\<open>None\<close>) or present. \<^verbatim>\<open>!x\<close> holds of an
  absent field, of the empty string and of the number 0; \<^verbatim>\<open>x || y\<close> is \<open>y\<close> in exactly
  these cases. The capacity of a body is modelled for JSON integers (of at most 21
  digits, which \<^verbatim>\<open>String\<close> prints without an exponent), on which \<^verbatim>\<open>parseInt\<close> is the
  identity.
\<close>

definition falsy_str :: "string option \<Rightarrow> bool" where
  "falsy_str x = (case x of None \<Rightarrow> True | Some v \<Rightarrow> v = [])"

definition falsy_num :: "int option \<Rightarrow> bool" where
  "falsy_num x = (case x of None \<Rightarrow> True | Some v \<Rightarrow> v = 0)"

definition or_str :: "string option \<Rightarrow> string \<Rightarrow> string" where
  "or_str x y = (case x of None \<Rightarrow> y | Some v \<Rightarrow> if v = [] then y else v)"

definition or_num :: "int option \<Rightarrow> int \<Rightarrow> int" where
  "or_num x y = (case x of None \<Rightarrow> y | Some v \<Rightarrow> if v = 0 then y else v)"

definition parseInt :: "int \<Rightarrow> int" where
  "parseInt n = n"

section \<open>The in-memory database\<close>

text \<open>
  The user record is the one that \<^verbatim>\<open>router.post('/register')\<close> builds in the version of the
  auth routes with roles and profiles; the version in \<^verbatim>\<open>src/routes/auth.routes.js\<close> builds
  the same record without \<open>role\<close> and \<open>profile\<close>, and writes the same two collections.
\<close>

record profile =
  p_name :: string
  bio :: string
  interests :: "string list"
  p_createdAt :: string
  eventsOrganized :: int
  eventsAttended :: int

record user =
  email :: string
  password :: string
  name :: string
  role :: string
  uid :: string
  profile :: profile

record event =
  eid :: string
  title :: string
  description :: string
  date :: string
  time :: string
  capacity :: int
  createdBy :: string
  participants :: "string list"
  createdAt :: string
  updatedAt :: "string option"

text \<open>
  \<^verbatim>\<open>db.users\<close> is a Map from email to user record; the handlers search its values in
  insertion order for a user id, so it is an association list. \<^verbatim>\<open>db.events\<close> and
  \<^verbatim>\<open>db.userEvents\<close> are only read and written by key in the handlers below.
\<close>

record db =
  users :: "(string \<times> user) list"
  events :: "string \<rightharpoonup> event"
  userEvents :: "string \<rightharpoonup> string list"

definition empty_db :: db where
  "empty_db = \<lparr>users = [], events = Map.empty, userEvents = Map.empty\<rparr>"

definition users_has :: "(string \<times> user) list \<Rightarrow> string \<Rightarrow> bool" where
  "users_has us k = (map_of us k \<noteq> None)"

definition users_set :: "(string \<times> user) list \<Rightarrow> string \<Rightarrow> user \<Rightarrow> (string \<times> user) list" where
  "users_set us k v =
     (if users_has us k then map (\<lambda>(k', v'). if k' = k then (k, v) else (k', v')) us
      else us @ [(k, v)])"

text \<open>\<^verbatim>\<open>Array.from(db.users.values()).find(user => user.id === id)\<close>\<close>

definition find_user :: "db \<Rightarrow> string \<Rightarrow> user option" where
  "find_user s i = List.find (\<lambda>u. uid u = i) (map snd (users s))"

section \<open>Requests, responses and the mail transport\<close>

record body =
  b_title :: "string option"
  b_description :: "string option"
  b_date :: "string option"
  b_time :: "string option"
  b_capacity :: "int option"

text \<open>
  A response is the HTTP status with the JSON payload. \<open>Error\<close> is \<^verbatim>\<open>{ error }\<close>,
  \<open>ErrorDetails\<close> carries the message of the caught exception as well.
\<close>

datatype payload =
    Error string
  | ErrorDetails string string
  | MissingFields
  | CapacityTooLow int
  | EventCreated string string string string string int string
  | EventUpdated string string string string string int int "string option" "string list"
  | EventDeleted string string int
  | Registered string string string string int
  | UserRegistered string

type_synonym response = "nat \<times> payload"

text \<open>
  \<^verbatim>\<open>sendEmail\<close> of \<^verbatim>\<open>src/utils/email.js\<close> resolves or throws, as the transport decides:
  the transport is a parameter \<open>mailer\<close> that says for an address whether the delivery
  succeeds. \<^verbatim>\<open>sendBulkEmails\<close> destructures every recipient, which throws on
  \<^verbatim>\<open>undefined\<close> (\<open>None\<close>); otherwise it waits with \<^verbatim>\<open>Promise.allSettled\<close>, which
  resolves whatever the single deliveries do.
\<close>

datatype 'a promise = Resolved 'a | Rejected string

definition sendEmail :: "(string \<Rightarrow> bool) \<Rightarrow> string \<Rightarrow> unit promise" where
  "sendEmail mailer to =
     (if mailer to then Resolved () else Rejected ''Failed to send email'')"

definition allSettled :: "'a promise list \<Rightarrow> unit promise" where
  "allSettled ps = Resolved ()"

definition sendBulkEmails :: "(string \<Rightarrow> bool) \<Rightarrow> string option list \<Rightarrow> unit promise" where
  "sendBulkEmails mailer recipients =
     (if None \<in> set recipients then Rejected ''Failed to send some notifications''
      else allSettled (map (\<lambda>r. sendEmail mailer (the r)) recipients))"

section \<open>The handlers\<close>

text \<open>
  \<^verbatim>\<open>router.post('/')\<close>: \<open>userId\<close> is the id of the verified token, \<open>now\<close> the reading of
  \<^verbatim>\<open>Date.now()\<close>, \<open>stamp\<close> the string of \<^verbatim>\<open>new Date().toISOString()\<close>. The logger is taken
  not to throw.
\<close>

definition createEvent :: "db \<Rightarrow> string \<Rightarrow> nat \<Rightarrow> string \<Rightarrow> body \<Rightarrow> db \<times> response" where
  "createEvent s userId now stamp b =
     (if userId = [] then (s, (401, Error ''User not authenticated properly''))
      else if falsy_str (b_title b) \<or> falsy_str (b_date b) \<or> falsy_str (b_time b)
              \<or> falsy_num (b_capacity b)
      then (s, (400, MissingFields))
      else
        let eventId = toString now;
            ev = \<lparr>eid = eventId,
                  title = the (b_title b),
                  description = or_str (b_description b) [],
                  date = the (b_date b),
                  time = the (b_time b),
                  capacity = parseInt (the (b_capacity b)),
                  createdBy = userId,
                  participants = [],
                  createdAt = stamp,
                  updatedAt = None\<rparr>
        in (s\<lparr>events := (events s)(eventId \<mapsto> ev)\<rparr>,
            (201, EventCreated eventId (title ev) (description ev) (date ev) (time ev)
                    (capacity ev) (createdAt ev))))"

text \<open>
  \<^verbatim>\<open>router.put('/:id')\<close>. The third component of the result is the log of
  \<^verbatim>\<open>UPDATE_EVENT_EMAIL_FAILED\<close> warnings: the participants whose notification threw.
\<close>

definition changedFields :: "event \<Rightarrow> body \<Rightarrow> string list" where
  "changedFields ev b =
     (if b_title b \<noteq> None \<and> b_title b \<noteq> Some (title ev) then [''title''] else []) @
     (if b_description b \<noteq> None \<and> b_description b \<noteq> Some (description ev)
      then [''description''] else []) @
     (if b_date b \<noteq> None \<and> b_date b \<noteq> Some (date ev) then [''date''] else []) @
     (if b_time b \<noteq> None \<and> b_time b \<noteq> Some (time ev) then [''time''] else []) @
     (if b_capacity b \<noteq> None \<and> b_capacity b \<noteq> Some (capacity ev) then [''capacity''] else [])"

definition notify_update :: "db \<Rightarrow> (string \<Rightarrow> bool) \<Rightarrow> string list \<Rightarrow> string list" where
  "notify_update s mailer ps =
     filter (\<lambda>participantId.
        case find_user s participantId of
          None \<Rightarrow> False
        | Some participant \<Rightarrow> sendEmail mailer (email participant) \<noteq> Resolved ()) ps"

definition updateEvent ::
  "db \<Rightarrow> (string \<Rightarrow> bool) \<Rightarrow> string \<Rightarrow> string \<Rightarrow> string \<Rightarrow> body \<Rightarrow> db \<times> response \<times> string list" where
  "updateEvent s mailer userId stamp eventId b =
     (case events s eventId of
        None \<Rightarrow> (s, (404, Error ''Event not found''), [])
      | Some ev \<Rightarrow>
          if createdBy ev \<noteq> userId
          then (s, (403, Error ''Unauthorized: Only the event creator can update this event''), [])
          else if \<not> falsy_num (b_capacity b) \<and> the (b_capacity b) < set_size (participants ev)
          then (s, (400, CapacityTooLow (set_size (participants ev))), [])
          else
            let updatedEvent = ev\<lparr>title := or_str (b_title b) (title ev),
                                  description := or_str (b_description b) (description ev),
                                  date := or_str (b_date b) (date ev),
                                  time := or_str (b_time b) (time ev),
                                  capacity := or_num (b_capacity b) (capacity ev),
                                  updatedAt := Some stamp\<rparr>;
                failed = (if b_date b \<noteq> Some (date ev) \<or> b_time b \<noteq> Some (time ev)
                          then notify_update s mailer (participants ev) else [])
            in (s\<lparr>events := (events s)(eventId \<mapsto> updatedEvent)\<rparr>,
                (200, EventUpdated (eid updatedEvent) (title updatedEvent)
                        (description updatedEvent) (date updatedEvent) (time updatedEvent)
                        (capacity updatedEvent) (set_size (participants updatedEvent))
                        (updatedAt updatedEvent) (changedFields ev b)),
                failed))"

text \<open>
  \<^verbatim>\<open>router.delete('/:id')\<close>. \<^verbatim>\<open>.filter(Boolean)\<close> is applied to the array of promises,
  which are all truthy, so \<open>notifications\<close> has one entry for every participant, and the
  entry of a participant without a user record is \<^verbatim>\<open>undefined\<close>. The array handed to the
  second \<^verbatim>\<open>Promise.all\<close> is built left to right: the registrations are cleaned up first,
  then \<^verbatim>\<open>sendBulkEmails\<close> is called; when its promise rejects, the handler's \<^verbatim>\<open>catch\<close>
  answers 500 and \<^verbatim>\<open>db.events.delete\<close> is not reached.
\<close>

definition cleanup :: "(string \<rightharpoonup> string list) \<Rightarrow> string \<Rightarrow> string \<Rightarrow> (string \<rightharpoonup> string list)" where
  "cleanup ue eventId participantId =
     (case ue participantId of
        None \<Rightarrow> ue
      | Some userEventSet \<Rightarrow> ue(participantId \<mapsto> set_delete userEventSet eventId))"

definition deleteEvent :: "db \<Rightarrow> (string \<Rightarrow> bool) \<Rightarrow> string \<Rightarrow> string \<Rightarrow> db \<times> response" where
  "deleteEvent s mailer userId eventId =
     (case events s eventId of
        None \<Rightarrow> (s, (404, Error ''Event not found''))
      | Some ev \<Rightarrow>
          if createdBy ev \<noteq> userId
          then (s, (403, Error ''Unauthorized: Only the event creator can delete this event''))
          else
            let ps = participants ev;
                notifications = map (\<lambda>participantId.
                                  map_option email (find_user s participantId)) ps;
                s1 = s\<lparr>userEvents := foldl (\<lambda>ue p. cleanup ue eventId p) (userEvents s) ps\<rparr>
            in (case (if notifications \<noteq> [] then sendBulkEmails mailer notifications
                      else Resolved ()) of
                  Rejected m \<Rightarrow> (s1, (500, Error ''Error deleting event''))
                | Resolved u \<Rightarrow>
                    (s1\<lparr>events := (events s1)(eventId := None)\<rparr>,
                     (200, EventDeleted eventId (title ev) (int (length ps))))))"

text \<open>
  \<^verbatim>\<open>router.post('/:id/register')\<close>. Both collections are written before the confirmation
  mail is awaited; when the mail throws, the handler's \<^verbatim>\<open>catch\<close> answers 500.
\<close>

definition register :: "db \<Rightarrow> (string \<Rightarrow> bool) \<Rightarrow> string \<Rightarrow> string \<Rightarrow> db \<times> response" where
  "register s mailer userId eventId =
     (case events s eventId of
        None \<Rightarrow> (s, (404, Error ''Event not found''))
      | Some ev \<Rightarrow>
          if set_size (participants ev) \<ge> capacity ev
          then (s, (400, Error ''Event is full''))
          else if set_has (participants ev) userId
          then (s, (400, Error ''Already registered for this event''))
          else
            let ev' = ev\<lparr>participants := set_add (participants ev) userId\<rparr>;
                mine = (case userEvents s userId of None \<Rightarrow> [] | Some es \<Rightarrow> es);
                s' = s\<lparr>events := (events s)(eventId \<mapsto> ev'),
                       userEvents := (userEvents s)(userId \<mapsto> set_add mine eventId)\<rparr>;
                ok = (200, Registered eventId (title ev') (date ev') (time ev')
                             (capacity ev' - set_size (participants ev')))
            in (case find_user s userId of
                  None \<Rightarrow> (s', ok)
                | Some u \<Rightarrow>
                    (case sendEmail mailer (email u) of
                       Rejected m \<Rightarrow> (s', (500, ErrorDetails ''Error registering for event'' m))
                     | Resolved x \<Rightarrow> (s', ok))))"

text \<open>
  \<^verbatim>\<open>router.post('/register')\<close> of the auth routes, in the version with roles and profiles
  (the last part of \<^verbatim>\<open>src/routes/event.routes.js\<close>): \<open>hashedPassword\<close> is the result of
  \<^verbatim>\<open>bcrypt.hash\<close>, \<open>rl\<close> the optional \<^verbatim>\<open>role\<close> of the body, which defaults to
  \<^verbatim>\<open>'attendee'\<close>. The user is stored before the welcome mail is awaited.
\<close>

definition registerUser ::
  "db \<Rightarrow> (string \<Rightarrow> bool) \<Rightarrow> nat \<Rightarrow> string \<Rightarrow> string \<Rightarrow> string \<Rightarrow> string \<Rightarrow> string option
     \<Rightarrow> db \<times> response" where
  "registerUser s mailer now stamp em hashedPassword nm rl =
     (if users_has (users s) em then (s, (400, Error ''Email already registered''))
      else
        let u = \<lparr>email = em, password = hashedPassword, name = nm,
                 role = (case rl of None \<Rightarrow> ''attendee'' | Some r \<Rightarrow> r),
                 uid = toString now,
                 profile = \<lparr>p_name = nm, bio = [], interests = [], p_createdAt = stamp,
                             eventsOrganized = 0, eventsAttended = 0\<rparr>\<rparr>;
            s' = s\<lparr>users := users_set (users s) em u,
                   userEvents := (userEvents s)(uid u \<mapsto> [])\<rparr>
        in (case sendEmail mailer em of
              Rejected m \<Rightarrow> (s', (500, Error ''Error registering user''))
            | Resolved x \<Rightarrow> (s', (201, UserRegistered (role u)))))"

section \<open>Reachable states and the properties of the store\<close>



definition is_registered :: "db \<Rightarrow> string \<Rightarrow> string \<Rightarrow> bool" where
  "is_registered s u e =
     (case userEvents s u of None \<Rightarrow> False | Some es \<Rightarrow> set_has es e)"


text \<open>
  The confirmation mail of a registration: a caller without a user record gets none, a
  caller with a record gets one at the address of the record.
\<close>

definition confirmation_delivered :: "db \<Rightarrow> (string \<Rightarrow> bool) \<Rightarrow> string \<Rightarrow> bool" where
  "confirmation_delivered s mailer userId =
     (case find_user s userId of None \<Rightarrow> True | Some u \<Rightarrow> mailer (email u))"

section \<open>Example requests\<close>

definition example_body :: "int \<Rightarrow> body" where
  "example_body c =
     \<lparr>b_title = Some ''Launch'', b_description = None, b_date = Some ''2026-01-01'',
      b_time = Some ''10:00'', b_capacity = Some c\<rparr>"

definition capacity_patch :: "int \<Rightarrow> body" where
  "capacity_patch c =
     \<lparr>b_title = None, b_description = None, b_date = None, b_time = None,
      b_capacity = Some c\<rparr>"

text \<open>A mail transport that delivers every mail, and one that fails on every mail.\<close>

definition delivers :: "string \<Rightarrow> bool" where
  "delivers to = True"

definition bounces :: "string \<Rightarrow> bool" where
  "bounces to = False"

text \<open>
  The store after \<^verbatim>\<open>owner\<close> has created an event of capacity \<open>c\<close> at clock reading 5 in
  the empty store, the event as it is stored with participants \<open>ps\<close>, and the store after
  the users \<open>us\<close> have registered for it one after the other. None of them has a user
  record: their tokens are older than the store.
\<close>

definition db_created :: "int \<Rightarrow> db" where
  "db_created c = fst (createEvent empty_db ''owner'' 5 ''T'' (example_body c))"

definition example_event :: "int \<Rightarrow> string list \<Rightarrow> event" where
  "example_event c ps =
     \<lparr>eid = ''5'', title = ''Launch'', description = [], date = ''2026-01-01'',
      time = ''10:00'', capacity = c, createdBy = ''owner'', participants = ps,
      createdAt = ''T'', updatedAt = None\<rparr>"

definition db_joined :: "int \<Rightarrow> string list \<Rightarrow> db" where
  "db_joined c us = foldl (\<lambda>s u. fst (register s delivers u ''5'')) (db_created c) us"

text \<open>
  The store after Ann has signed up at clock reading 3 (her user id is \<^verbatim>\<open>3\<close>) and
  \<^verbatim>\<open>owner\<close> has then created the event of capacity \<open>c\<close> at clock reading 5.
\<close>

definition ann :: user where
  "ann = \<lparr>email = ''ann@example.org'', password = ''hash'', name = ''Ann'',
          role = ''attendee'', uid = ''3'',
          profile = \<lparr>p_name = ''Ann'', bio = [], interests = [], p_createdAt = ''S'',
                      eventsOrganized = 0, eventsAttended = 0\<rparr>\<rparr>"

definition db_ann :: "int \<Rightarrow> db" where
  "db_ann c =
     fst (createEvent
            (fst (registerUser empty_db delivers 3 ''S'' ''ann@example.org'' ''hash'' ''Ann'' None))
            ''owner'' 5 ''T'' (example_body c))"

definition db_ann_joined :: "int \<Rightarrow> string list \<Rightarrow> db" where
  "db_ann_joined c us = foldl (\<lambda>s u. fst (register s delivers u ''5'')) (db_ann c) us"

text \<open>
  Register requests of the users \<open>us\<close> for one event, handled one after the other: the
  final store and the responses in order.
\<close>

fun register_each :: "db \<Rightarrow> (string \<Rightarrow> bool) \<Rightarrow> string \<Rightarrow> string list \<Rightarrow> db \<times> response list" where
  "register_each s mailer eventId [] = (s, [])"
| "register_each s mailer eventId (u # us) =
     (let r = register s mailer u eventId;
          rs = register_each (fst r) mailer eventId us
      in (fst rs, snd r # snd rs))"



section \<open>Facts for evaluating the handlers\<close>

lemmas js_defs = set_has_def set_add_def set_delete_def set_size_def falsy_str_def falsy_num_def
  or_str_def or_num_def parseInt_def

lemmas mail_defs = sendEmail_def sendBulkEmails_def allSettled_def delivers_def bounces_def

lemmas handler_defs = createEvent_def updateEvent_def deleteEvent_def register_def
  registerUser_def changedFields_def notify_update_def cleanup_def find_user_def users_has_def
  users_set_def Let_def

lemmas example_defs = example_body_def capacity_patch_def empty_db_def db_created_def
  db_joined_def db_ann_def db_ann_joined_def ann_def example_event_def

lemma toString_5: "toString 5 = ''5''"
  by code_simp


lemma toString_3: "toString 3 = ''3''"
  by code_simp

lemma db_created_eq:
  "c \<noteq> 0 \<Longrightarrow> db_created c =
     \<lparr>users = [], events = [''5'' \<mapsto> example_event c []], userEvents = Map.empty\<rparr>"
  by (simp add: handler_defs js_defs example_defs toString_5)

lemma db_joined_1:
  "0 < c \<Longrightarrow> db_joined c [a] =
     \<lparr>users = [], events = [''5'' \<mapsto> example_event c [a]], userEvents = [a \<mapsto> [''5'']]\<rparr>"
  by (simp add: db_joined_def db_created_eq register_def find_user_def js_defs example_event_def)


lemma db_ann_eq:
  "c \<noteq> 0 \<Longrightarrow> db_ann c =
     \<lparr>users = [(''ann@example.org'', ann)], events = [''5'' \<mapsto> example_event c []],
      userEvents = [''3'' \<mapsto> []]\<rparr>"
  by (simp add: handler_defs js_defs mail_defs example_defs toString_5 toString_3)

lemma db_ann_joined_2:
  "1 < c \<Longrightarrow> db_ann_joined c [''3'', ''ghost''] =
     \<lparr>users = [(''ann@example.org'', ann)],
      events = [''5'' \<mapsto> example_event c [''3'', ''ghost'']],
      userEvents = [''3'' \<mapsto> [''5''], ''ghost'' \<mapsto> [''5'']]\<rparr>"
  by (simp add: db_ann_joined_def db_ann_eq register_def find_user_def js_defs mail_defs
        example_event_def ann_def)



section \<open>The capacity bound\<close>











section \<open>Lowering the capacity\<close>




section \<open>Registering twice\<close>

text \<open>
  C3, as the code has it. A register call by a user who is already a participant of the
  event answers 400 and returns the store as it was, so the participant count and the
  user's registered events are the same. The capacity is checked first: the error is
  \<^verbatim>\<open>Event is full\<close> when the event is full, and \<^verbatim>\<open>Already registered for this event\<close>
  otherwise.
\<close>

theorem register_again:
  assumes "events s e = Some ev" and "set_has (participants ev) u"
  shows "register s mailer u e =
           (s, (400, Error (if set_size (participants ev) \<ge> capacity ev then ''Event is full''
                            else ''Already registered for this event'')))"
  using assms by (simp add: register_def)

text \<open>
  \<^verbatim>\<open>alice\<close> registers a second time for an event of capacity 2.
\<close>

theorem register_again_witness:
  "events (db_joined 2 [''alice'']) ''5'' = Some (example_event 2 [''alice''])
   \<and> set_has (participants (example_event 2 [''alice''])) ''alice''
   \<and> register (db_joined 2 [''alice'']) delivers ''alice'' ''5'' =
       (db_joined 2 [''alice''], (400, Error ''Already registered for this event''))"
proof -
  have e: "events (db_joined 2 [''alice'']) ''5'' = Some (example_event 2 [''alice''])"
    by (simp add: db_joined_1)
  have p: "set_has (participants (example_event 2 [''alice''])) ''alice''"
    by (simp add: example_event_def set_has_def)
  from register_again [OF e p, of delivers] e p show ?thesis
    by (simp add: example_event_def set_size_def)
qed

text \<open>
  C3 as it is stated fails at a full event: \<^verbatim>\<open>alice\<close> is the participant of an event of
  capacity 1, and her second register call gets \<^verbatim>\<open>Event is full\<close>.
\<close>

theorem register_again_full_counterexample:
  "events (db_joined 1 [''alice'']) ''5'' = Some (example_event 1 [''alice''])
   \<and> set_has (participants (example_event 1 [''alice''])) ''alice''
   \<and> register (db_joined 1 [''alice'']) delivers ''alice'' ''5'' =
       (db_joined 1 [''alice''], (400, Error ''Event is full''))"
  by (simp add: db_joined_1 register_def js_defs example_event_def)

section \<open>Deleting an event\<close>

lemma cleanup_apply:
  "cleanup ue e a u = (if u = a then map_option (\<lambda>es. set_delete es e) (ue u) else ue u)"
  by (simp add: cleanup_def split: option.splits)

lemma cleanup_fold:
  "foldl (\<lambda>ue p. cleanup ue e p) ue ps u =
     (if u \<in> set ps then map_option (\<lambda>es. set_delete es e) (ue u) else ue u)"
proof (induction ps arbitrary: ue)
  case Nil
  show ?case by simp
next
  case (Cons a ps)
  have idem: "map_option (\<lambda>es. set_delete es e) (map_option (\<lambda>es. set_delete es e) x) =
              map_option (\<lambda>es. set_delete es e) x" for x :: "string list option"
    by (cases x) (simp_all add: set_delete_def)
  have "foldl (\<lambda>ue p. cleanup ue e p) ue (a # ps) u =
        foldl (\<lambda>ue p. cleanup ue e p) (cleanup ue e a) ps u"
    by simp
  also have "\<dots> = (if u \<in> set ps then map_option (\<lambda>es. set_delete es e) (cleanup ue e a u)
                   else cleanup ue e a u)"
    by (rule Cons.IH)
  also have "\<dots> = (if u \<in> set (a # ps) then map_option (\<lambda>es. set_delete es e) (ue u)
                   else ue u)"
    by (simp add: cleanup_apply idem)
  finally show ?case .
qed

lemma deleteEvent_resolved:
  assumes "events s eventId = Some ev" and "createdBy ev = userId"
    and "\<forall>p \<in> set (participants ev). find_user s p \<noteq> None"
  shows "deleteEvent s mailer userId eventId =
           (s\<lparr>userEvents := foldl (\<lambda>ue p. cleanup ue eventId p) (userEvents s) (participants ev),
              events := (events s)(eventId := None)\<rparr>,
            (200, EventDeleted eventId (title ev) (int (length (participants ev)))))"
proof -
  have "None \<notin> set (map (\<lambda>p. map_option email (find_user s p)) (participants ev))"
    using assms(3) by auto
  then show ?thesis
    using assms(1,2) by (simp add: deleteEvent_def Let_def sendBulkEmails_def allSettled_def)
qed

lemma deleteEvent_unresolved:
  assumes "events s eventId = Some ev" and "createdBy ev = userId"
    and "p \<in> set (participants ev)" and "find_user s p = None"
  shows "deleteEvent s mailer userId eventId =
           (s\<lparr>userEvents := foldl (\<lambda>ue p. cleanup ue eventId p) (userEvents s) (participants ev)\<rparr>,
            (500, Error ''Error deleting event''))"
proof -
  have "None \<in> set (map (\<lambda>p. map_option email (find_user s p)) (participants ev))"
    using assms(3,4) by force
  moreover have "participants ev \<noteq> []"
    using assms(3) by auto
  ultimately show ?thesis
    using assms(1,2) by (simp add: deleteEvent_def Let_def sendBulkEmails_def)
qed

text \<open>
  C4 at an event with two participants, Ann with a user record and \<^verbatim>\<open>ghost\<close> without
  one (a token that is older than the store). The owner's delete answers 500, not 200
  with \<^verbatim>\<open>participantsNotified\<close> = 2: the entry of \<^verbatim>\<open>ghost\<close> in \<open>notifications\<close> is
  \<^verbatim>\<open>undefined\<close>, \<^verbatim>\<open>sendBulkEmails\<close> throws on it, and the event stays in the store while
  both registered-event sets have been emptied.
\<close>

theorem delete_with_unknown_participant:
  "events (db_ann_joined 2 [''3'', ''ghost'']) ''5'' = Some (example_event 2 [''3'', ''ghost''])
   \<and> find_user (db_ann_joined 2 [''3'', ''ghost'']) ''3'' = Some ann
   \<and> find_user (db_ann_joined 2 [''3'', ''ghost'']) ''ghost'' = None
   \<and> deleteEvent (db_ann_joined 2 [''3'', ''ghost'']) delivers ''owner'' ''5'' =
       ((db_ann_joined 2 [''3'', ''ghost''])\<lparr>userEvents := [''3'' \<mapsto> [], ''ghost'' \<mapsto> []]\<rparr>,
        (500, Error ''Error deleting event''))"
  by (simp add: db_ann_joined_2 deleteEvent_def cleanup_def find_user_def sendBulkEmails_def
        js_defs ann_def example_event_def)

text \<open>
  C5 where the code departs from it. When a participant of the event has no user record,
  resolving the recipients leaves an \<^verbatim>\<open>undefined\<close> notification, and the owner's delete
  answers 500 and keeps the event, whatever the mail transport does.
\<close>

theorem delete_unresolved_recipient:
  assumes "events s eventId = Some ev" and "createdBy ev = userId"
    and "p \<in> set (participants ev)" and "find_user s p = None"
  shows "snd (deleteEvent s mailer userId eventId) = (500, Error ''Error deleting event'')
         \<and> events (fst (deleteEvent s mailer userId eventId)) eventId = Some ev"
  by (simp add: deleteEvent_unresolved [OF assms] assms(1))

text \<open>
  The owner deletes an event whose only participant, \<^verbatim>\<open>ghost\<close>, has no user record.
\<close>

theorem delete_unresolved_recipient_witness:
  "events (db_joined 2 [''ghost'']) ''5'' = Some (example_event 2 [''ghost''])
   \<and> createdBy (example_event 2 [''ghost'']) = ''owner''
   \<and> ''ghost'' \<in> set (participants (example_event 2 [''ghost'']))
   \<and> find_user (db_joined 2 [''ghost'']) ''ghost'' = None
   \<and> snd (deleteEvent (db_joined 2 [''ghost'']) delivers ''owner'' ''5'') =
       (500, Error ''Error deleting event'')
   \<and> events (fst (deleteEvent (db_joined 2 [''ghost'']) delivers ''owner'' ''5'')) ''5'' =
       Some (example_event 2 [''ghost''])"
proof -
  have e: "events (db_joined 2 [''ghost'']) ''5'' = Some (example_event 2 [''ghost''])"
    by (simp add: db_joined_1)
  have o: "createdBy (example_event 2 [''ghost'']) = ''owner''"
    by (simp add: example_event_def)
  have p: "''ghost'' \<in> set (participants (example_event 2 [''ghost'']))"
    by (simp add: example_event_def)
  have f: "find_user (db_joined 2 [''ghost'']) ''ghost'' = None"
    by (simp add: db_joined_1 find_user_def)
  from delete_unresolved_recipient [OF e o p f, of delivers] e o p f show ?thesis
    by simp
qed


section \<open>The registration index\<close>
















lemma db_ann_joined_1:
  "0 < c \<Longrightarrow> db_ann_joined c [''3''] =
     \<lparr>users = [(''ann@example.org'', ann)],
      events = [''5'' \<mapsto> example_event c [''3'']],
      userEvents = [''3'' \<mapsto> [''5'']]\<rparr>"
  by (simp add: db_ann_joined_def db_ann_eq register_def find_user_def js_defs mail_defs
        example_event_def ann_def)

lemma db_ann_joined_bob:
  "1 < c \<Longrightarrow> db_ann_joined c [''3'', ''bob''] =
     \<lparr>users = [(''ann@example.org'', ann)],
      events = [''5'' \<mapsto> example_event c [''3'', ''bob'']],
      userEvents = [''3'' \<mapsto> [''5''], ''bob'' \<mapsto> [''5'']]\<rparr>"
  by (simp add: db_ann_joined_def db_ann_eq register_def find_user_def js_defs mail_defs
        example_event_def ann_def)

section \<open>Registering for an event\<close>

lemma register_ok:
  assumes "events s e = Some ev" and "set_size (participants ev) < capacity ev"
    and "u \<notin> set (participants ev)" and "confirmation_delivered s mailer u"
  shows "register s mailer u e =
           (s\<lparr>events := (events s)(e \<mapsto> ev\<lparr>participants := participants ev @ [u]\<rparr>),
              userEvents := (userEvents s)
                 (u \<mapsto> set_add (case userEvents s u of None \<Rightarrow> [] | Some es \<Rightarrow> es) e)\<rparr>,
            (200, Registered e (title ev) (date ev) (time ev)
                    (capacity ev - (set_size (participants ev) + 1))))"
  using assms
  by (auto simp: register_def Let_def set_has_def set_add_def set_size_def sendEmail_def
        confirmation_delivered_def split: option.splits)

lemma register_full:
  assumes "events s e = Some ev" and "set_size (participants ev) \<ge> capacity ev"
  shows "register s mailer u e = (s, (400, Error ''Event is full''))"
  using assms by (simp add: register_def)

lemma register_success_state:
  assumes "register s mailer u e = (s', (200, p))"
  shows "\<exists>ev. events s e = Some ev \<and> set_size (participants ev) < capacity ev
           \<and> u \<notin> set (participants ev)
           \<and> s' = s\<lparr>events := (events s)(e \<mapsto> ev\<lparr>participants := participants ev @ [u]\<rparr>),
                     userEvents := (userEvents s)
                       (u \<mapsto> set_add (case userEvents s u of None \<Rightarrow> [] | Some es \<Rightarrow> es) e)\<rparr>
           \<and> p = Registered e (title ev) (date ev) (time ev)
                    (capacity ev - (set_size (participants ev) + 1))"
  using assms
  by (auto simp: register_def Let_def set_has_def set_add_def set_size_def
        split: option.splits if_splits promise.splits)

lemma find_user_register: "find_user (fst (register s mailer u e)) i = find_user s i"
  by (simp add: register_def find_user_def Let_def split: option.splits promise.splits)

lemma confirmation_delivered_register:
  "confirmation_delivered (fst (register s mailer u e)) mailer' i = confirmation_delivered s mailer' i"
  by (simp add: confirmation_delivered_def find_user_register)





section \<open>Event ids\<close>









section \<open>What a registration changes\<close>

text \<open>
  C10. A register call that answers 200 leaves the user records as they are, the
  \<^verbatim>\<open>eventsAttended\<close> counters among them, leaves every other event and every other user's
  registered-event set as they are, appends the caller to the participants of the event
  and changes nothing else of it, and adds the event id to the caller's registered-event
  set, which starts empty when the caller had none.
\<close>

theorem register_frame:
  assumes "register s mailer userId eventId = (s', (200, p))"
  shows "users s' = users s
         \<and> map (\<lambda>(k, u). eventsAttended (profile u)) (users s') =
             map (\<lambda>(k, u). eventsAttended (profile u)) (users s)
         \<and> (\<forall>e. e \<noteq> eventId \<longrightarrow> events s' e = events s e)
         \<and> (\<forall>u. u \<noteq> userId \<longrightarrow> userEvents s' u = userEvents s u)
         \<and> (\<exists>ev. events s eventId = Some ev
               \<and> events s' eventId = Some (ev\<lparr>participants := participants ev @ [userId]\<rparr>))
         \<and> userEvents s' userId =
             Some (set_add (case userEvents s userId of None \<Rightarrow> [] | Some es \<Rightarrow> es) eventId)"
  using register_success_state [OF assms] by auto

text \<open>
  Ann registers for the event of capacity 2.
\<close>

theorem register_frame_witness:
  "register (db_ann 2) delivers ''3'' ''5'' =
     (db_ann_joined 2 [''3''], (200, Registered ''5'' ''Launch'' ''2026-01-01'' ''10:00'' 1))
   \<and> users (db_ann_joined 2 [''3'']) = users (db_ann 2)
   \<and> users (db_ann 2) = [(''ann@example.org'', ann)]
   \<and> eventsAttended (profile ann) = 0
   \<and> events (db_ann_joined 2 [''3'']) ''6'' = events (db_ann 2) ''6''
   \<and> userEvents (db_ann_joined 2 [''3'']) ''owner'' = userEvents (db_ann 2) ''owner''
   \<and> events (db_ann 2) ''5'' = Some (example_event 2 [])
   \<and> events (db_ann_joined 2 [''3'']) ''5'' = Some (example_event 2 [''3''])
   \<and> userEvents (db_ann 2) ''3'' = Some []
   \<and> userEvents (db_ann_joined 2 [''3'']) ''3'' = Some [''5'']"
proof -
  have r: "register (db_ann 2) delivers ''3'' ''5'' =
     (db_ann_joined 2 [''3''], (200, Registered ''5'' ''Launch'' ''2026-01-01'' ''10:00'' 1))"
    by (simp add: db_ann_joined_1)
       (simp add: db_ann_eq register_def find_user_def js_defs mail_defs example_event_def ann_def)
  from register_frame [OF r] r show ?thesis
    by (simp add: db_ann_eq db_ann_joined_1 ann_def example_event_def)
qed


section \<open>Notifications and the commit\<close>

text \<open>
  When every participant of the event has a user record, the owner's delete answers 200
  with \<^verbatim>\<open>participantsNotified\<close> equal to the number of participants, whatever the mail
  transport does with the cancellation mails; the event is gone from the store, and its
  id is gone from the registered-event set of every participant.
\<close>

theorem delete_all_resolved:
  assumes "events s eventId = Some ev" and "createdBy ev = userId"
    and "\<forall>p \<in> set (participants ev). find_user s p \<noteq> None"
  shows "snd (deleteEvent s mailer userId eventId) =
           (200, EventDeleted eventId (title ev) (set_size (participants ev)))
         \<and> events (fst (deleteEvent s mailer userId eventId)) eventId = None
         \<and> (\<forall>p \<in> set (participants ev).
               \<not> is_registered (fst (deleteEvent s mailer userId eventId)) p eventId)"
  by (simp add: deleteEvent_resolved [OF assms] set_size_def is_registered_def cleanup_fold
        set_has_def set_delete_def split: option.splits)

text \<open>
  The owner deletes the event for which Ann is registered, and her cancellation mail
  fails.
\<close>

theorem delete_all_resolved_witness:
  "events (db_ann_joined 2 [''3'']) ''5'' = Some (example_event 2 [''3''])
   \<and> createdBy (example_event 2 [''3'']) = ''owner''
   \<and> find_user (db_ann_joined 2 [''3'']) ''3'' = Some ann
   \<and> snd (deleteEvent (db_ann_joined 2 [''3'']) bounces ''owner'' ''5'') =
       (200, EventDeleted ''5'' ''Launch'' 1)
   \<and> events (fst (deleteEvent (db_ann_joined 2 [''3'']) bounces ''owner'' ''5'')) ''5'' = None
   \<and> \<not> is_registered (fst (deleteEvent (db_ann_joined 2 [''3'']) bounces ''owner'' ''5'')) ''3'' ''5''"
proof -
  have e: "events (db_ann_joined 2 [''3'']) ''5'' = Some (example_event 2 [''3''])"
    by (simp add: db_ann_joined_1)
  have o: "createdBy (example_event 2 [''3'']) = ''owner''"
    by (simp add: example_event_def)
  have f: "find_user (db_ann_joined 2 [''3'']) ''3'' = Some ann"
    by (simp add: db_ann_joined_1 find_user_def ann_def)
  have a: "\<forall>p \<in> set (participants (example_event 2 [''3''])). find_user (db_ann_joined 2 [''3'']) p \<noteq> None"
    using f by (simp add: example_event_def)
  from delete_all_resolved [OF e o a, of bounces] e o f show ?thesis
    by (simp add: example_event_def set_size_def)
qed

text \<open>
  An update by the owner that passes the capacity guard answers 200 and stores the merged
  event, whatever the mail transport does with the notifications: the store and the
  response are those of a transport that delivers every mail.
\<close>

theorem update_commits:
  assumes "events s eventId = Some ev" and "createdBy ev = userId"
    and "falsy_num (b_capacity b) \<or> set_size (participants ev) \<le> the (b_capacity b)"
  shows "fst (fst (snd (updateEvent s mailer userId stamp eventId b))) = 200
         \<and> fst (updateEvent s mailer userId stamp eventId b) =
             s\<lparr>events := (events s)(eventId \<mapsto>
                  ev\<lparr>title := or_str (b_title b) (title ev),
                     description := or_str (b_description b) (description ev),
                     date := or_str (b_date b) (date ev),
                     time := or_str (b_time b) (time ev),
                     capacity := or_num (b_capacity b) (capacity ev),
                     updatedAt := Some stamp\<rparr>)\<rparr>
         \<and> fst (snd (updateEvent s mailer userId stamp eventId b)) =
             fst (snd (updateEvent s delivers userId stamp eventId b))"
  using assms by (auto simp: updateEvent_def Let_def)

text \<open>
  The owner raises the capacity to 3 while the notification to Ann fails: the failure is
  in the log only.
\<close>

theorem update_commits_witness:
  "events (db_ann_joined 2 [''3'']) ''5'' = Some (example_event 2 [''3''])
   \<and> createdBy (example_event 2 [''3'']) = ''owner''
   \<and> set_size (participants (example_event 2 [''3''])) \<le> the (b_capacity (capacity_patch 3))
   \<and> updateEvent (db_ann_joined 2 [''3'']) bounces ''owner'' ''U'' ''5'' (capacity_patch 3) =
       ((db_ann_joined 2 [''3''])\<lparr>events := [''5'' \<mapsto>
            (example_event 3 [''3''])\<lparr>updatedAt := Some ''U''\<rparr>]\<rparr>,
        (200, EventUpdated ''5'' ''Launch'' [] ''2026-01-01'' ''10:00'' 3 1 (Some ''U'')
                [''capacity'']),
        [''3''])"
proof -
  have e: "events (db_ann_joined 2 [''3'']) ''5'' = Some (example_event 2 [''3''])"
    by (simp add: db_ann_joined_1)
  have o: "createdBy (example_event 2 [''3'']) = ''owner''"
    by (simp add: example_event_def)
  have c: "set_size (participants (example_event 2 [''3''])) \<le> the (b_capacity (capacity_patch 3))"
    by (simp add: example_event_def capacity_patch_def set_size_def)
  have u: "updateEvent (db_ann_joined 2 [''3'']) bounces ''owner'' ''U'' ''5'' (capacity_patch 3) =
       ((db_ann_joined 2 [''3''])\<lparr>events := [''5'' \<mapsto>
            (example_event 3 [''3''])\<lparr>updatedAt := Some ''U''\<rparr>]\<rparr>,
        (200, EventUpdated ''5'' ''Launch'' [] ''2026-01-01'' ''10:00'' 3 1 (Some ''U'')
                [''capacity'']),
        [''3''])"
    by (simp add: db_ann_joined_1 updateEvent_def changedFields_def notify_update_def
          find_user_def js_defs mail_defs capacity_patch_def example_event_def ann_def)
  from update_commits [OF e o disjI2 [OF c], of bounces "''U''"] e o c u show ?thesis
    by simp
qed

section \<open>Filling an event\<close>

text \<open>
  Register requests handled one after the other fill the event in the order of arrival.
\<close>

lemma register_each_fills_from:
  assumes "events s e = Some ev" and "length (participants ev) \<le> C" and "capacity ev = int C"
    and "distinct (participants ev @ us)"
    and "\<forall>u \<in> set us. confirmation_delivered s mailer u"
  shows "map fst (snd (register_each s mailer e us)) =
           replicate (min (length us) (C - length (participants ev))) 200
           @ replicate (length us - (C - length (participants ev))) 400
         \<and> map_option participants (events (fst (register_each s mailer e us)) e) =
             Some (take C (participants ev @ us))"
  using assms
proof (induction us arbitrary: s ev)
  case Nil
  then show ?case by simp
next
  case (Cons u us)
  show ?case
  proof (cases "length (participants ev) < C")
    case True
    let ?ev1 = "ev\<lparr>participants := participants ev @ [u]\<rparr>"
    have d: "confirmation_delivered s mailer u"
      using Cons.prems(5) by simp
    have r: "register s mailer u e =
        (s\<lparr>events := (events s)(e \<mapsto> ?ev1),
           userEvents := (userEvents s)
             (u \<mapsto> set_add (case userEvents s u of None \<Rightarrow> [] | Some es \<Rightarrow> es) e)\<rparr>,
         (200, Registered e (title ev) (date ev) (time ev)
                 (capacity ev - (set_size (participants ev) + 1))))"
      using register_ok [OF Cons.prems(1) _ _ d] True Cons.prems(3,4) by (simp add: set_size_def)
    define s1 where "s1 = fst (register s mailer u e)"
    have e1: "events s1 e = Some ?ev1"
      by (simp add: s1_def r)
    have l1: "length (participants ?ev1) \<le> C"
      using True by simp
    have c1: "capacity ?ev1 = int C"
      using Cons.prems(3) by simp
    have d1: "distinct (participants ?ev1 @ us)"
      using Cons.prems(4) by simp
    have m1: "\<forall>u \<in> set us. confirmation_delivered s1 mailer u"
      using Cons.prems(5) by (simp add: s1_def confirmation_delivered_register)
    note IH = Cons.IH [OF e1 l1 c1 d1 m1]
    have st: "fst (snd (register s mailer u e)) = 200"
      by (simp add: r)
    have less: "min (Suc (length us)) (C - length (participants ev)) =
                Suc (min (length us) (C - Suc (length (participants ev))))"
      using True by (auto simp: min_def)
    have more: "Suc (length us) - (C - length (participants ev)) =
                length us - (C - Suc (length (participants ev)))"
      using True by simp
    show ?thesis
      using IH st by (simp add: Let_def s1_def [symmetric] less more)
  next
    case False
    with Cons.prems(2) have full: "length (participants ev) = C"
      by simp
    then have r: "register s mailer u e = (s, (400, Error ''Event is full''))"
      using register_full [OF Cons.prems(1)] Cons.prems(3) by (simp add: set_size_def)
    have d1: "distinct (participants ev @ us)"
      using Cons.prems(4) by simp
    have m1: "\<forall>u \<in> set us. confirmation_delivered s mailer u"
      using Cons.prems(5) by simp
    note IH = Cons.IH [OF Cons.prems(1,2,3) d1 m1]
    show ?thesis
      using IH full by (simp add: Let_def r)
  qed
qed

text \<open>
  Register calls of \<open>N\<close> different users, handled one after the other, for an event with
  capacity \<open>C\<close> and no participants, when the confirmation mails are delivered: the first
  \<open>min N C\<close> calls answer 200, the others answer 400, and the participants of the event
  are the first \<open>C\<close> callers.
\<close>

theorem register_each_fills:
  assumes "events s e = Some ev" and "participants ev = []" and "capacity ev = int C"
    and "distinct us"
    and "\<forall>u \<in> set us. confirmation_delivered s mailer u"
  shows "map fst (snd (register_each s mailer e us)) =
           replicate (min (length us) C) 200 @ replicate (length us - C) 400
         \<and> map_option participants (events (fst (register_each s mailer e us)) e) =
             Some (take C us)"
  using register_each_fills_from [OF assms(1) _ assms(3) _ assms(5)] assms(2,4)
  by simp

text \<open>
  Ann, \<^verbatim>\<open>bob\<close> and \<^verbatim>\<open>carol\<close> register for an event of capacity 2.
\<close>

theorem register_each_fills_witness:
  "events (db_ann 2) ''5'' = Some (example_event 2 [])
   \<and> participants (example_event 2 []) = []
   \<and> capacity (example_event 2 []) = int 2
   \<and> distinct [''3'', ''bob'', ''carol'']
   \<and> confirmation_delivered (db_ann 2) delivers ''3''
   \<and> confirmation_delivered (db_ann 2) delivers ''bob''
   \<and> confirmation_delivered (db_ann 2) delivers ''carol''
   \<and> map fst (snd (register_each (db_ann 2) delivers ''5'' [''3'', ''bob'', ''carol''])) =
       [200, 200, 400]
   \<and> map_option participants
        (events (fst (register_each (db_ann 2) delivers ''5'' [''3'', ''bob'', ''carol''])) ''5'') =
       Some [''3'', ''bob'']"
proof -
  have e: "events (db_ann 2) ''5'' = Some (example_event 2 [])"
    by (simp add: db_ann_eq)
  have p: "participants (example_event 2 []) = []"
    by (simp add: example_event_def)
  have c: "capacity (example_event 2 []) = int 2"
    by (simp add: example_event_def)
  have d: "distinct [''3'', ''bob'', ''carol'']"
    by simp
  have m: "confirmation_delivered (db_ann 2) delivers u" for u
    by (simp add: confirmation_delivered_def delivers_def split: option.splits)
  then have a: "\<forall>u \<in> set [''3'', ''bob'', ''carol'']. confirmation_delivered (db_ann 2) delivers u"
    by simp
  from register_each_fills [OF e p c d a] e p c d m show ?thesis
    by (simp add: numeral_eq_Suc)
qed

end
